theory Spec2Isabelle
  imports Main "HOL-Library.Sublist" "HOL-Library.Multiset"
begin

section \<open>Data model (scribe/internal/verify, types)\<close>

text \<open>
  Go strings are byte sequences and are modelled as \<open>string\<close> (a list of 8-bit characters).
  \<open>CheckType\<close> and \<open>CheckStatus\<close> are declared in the source as named string types
  with a handful of constants; a result may carry any string there (the zero value is the
  empty string), so both stay strings in the model. Go's \<open>int\<close> is modelled as \<open>int\<close>:
  every counter below is bounded by the length of a slice, which fits a machine word.

  The fields \<open>CheckID\<close>, \<open>CheckedAt\<close>, \<open>ReportID\<close> and \<open>GeneratedAt\<close> are filled from
  \<open>uuid.New()\<close> and \<open>time.Now()\<close>; no branch of the code reads them and they are left out of
  the records.
\<close>

type_synonym CheckType = string
type_synonym CheckStatus = string

definition CheckTypeCitation :: CheckType where "CheckTypeCitation = ''citation''"
definition CheckTypeURL :: CheckType where "CheckTypeURL = ''url''"
definition CheckTypeCodeLink :: CheckType where "CheckTypeCodeLink = ''code-link''"
definition CheckTypeClaim :: CheckType where "CheckTypeClaim = ''claim''"
definition CheckTypeTodoMarker :: CheckType where "CheckTypeTodoMarker = ''todo-marker''"

definition CheckStatusPass :: CheckStatus where "CheckStatusPass = ''pass''"
definition CheckStatusFail :: CheckStatus where "CheckStatusFail = ''fail''"
definition CheckStatusWarn :: CheckStatus where "CheckStatusWarn = ''warn''"

lemmas CheckType_defs =
  CheckTypeCitation_def CheckTypeURL_def CheckTypeCodeLink_def CheckTypeClaim_def
  CheckTypeTodoMarker_def

lemmas CheckStatus_defs = CheckStatusPass_def CheckStatusFail_def CheckStatusWarn_def

record VerificationTarget =
  File :: string
  Line :: int
  Text :: string

record CitationDetails =
  PaperID :: string
  Resolved :: bool

record URLDetails =
  DetailsURL :: string
  HTTPStatus :: "int option"
  Error :: "string option"

record CodeLinkDetails =
  Permalink :: string
  FileExists :: bool
  LineRangeValid :: bool

record ClaimDetails =
  ClaimText :: string
  Confidence :: string
  SuggestedAction :: string

text \<open>The four pointer fields of \<open>VerificationDetails\<close>; \<open>None\<close> is the nil pointer.\<close>

record VerificationDetails =
  Citation :: "CitationDetails option"
  URL :: "URLDetails option"
  CodeLink :: "CodeLinkDetails option"
  Claim :: "ClaimDetails option"

definition noDetails :: VerificationDetails where
  "noDetails = \<lparr>Citation = None, URL = None, CodeLink = None, Claim = None\<rparr>"

record VerificationResult =
  CheckType :: CheckType
  Target :: VerificationTarget
  Status :: CheckStatus
  Message :: string
  Details :: VerificationDetails

text \<open>
  A result literal that sets only the check type and the status, every other field at its
  zero value, as the repository's tests build them.
\<close>

definition zeroResult :: "CheckType \<Rightarrow> CheckStatus \<Rightarrow> VerificationResult" where
  "zeroResult t s =
     \<lparr>CheckType = t, Target = \<lparr>File = [], Line = 0, Text = []\<rparr>, Status = s,
      Message = [], Details = noDetails\<rparr>"

record ReportSummary =
  TotalChecks :: int
  Passed :: int
  Failed :: int
  Warnings :: int

record VerificationReport =
  ContentFiles :: "string list"
  Summary :: ReportSummary
  Results :: "VerificationResult list"
  ExitCode :: int

section \<open>Report builder (scribe/internal/verify/report.go)\<close>

record ReportBuilder =
  files :: "string list"
  results :: "VerificationResult list"

definition NewReportBuilder :: ReportBuilder where
  "NewReportBuilder = \<lparr>files = [], results = []\<rparr>"

definition AddFile :: "ReportBuilder \<Rightarrow> string \<Rightarrow> ReportBuilder" where
  "AddFile b file = b\<lparr>files := files b @ [file]\<rparr>"

definition AddResult :: "ReportBuilder \<Rightarrow> VerificationResult \<Rightarrow> ReportBuilder" where
  "AddResult b result = b\<lparr>results := results b @ [result]\<rparr>"

text \<open>One turn of the \<open>for _, r := range b.results\<close> loop of \<open>Build\<close>: the \<open>switch\<close> on the status.\<close>

definition tally :: "ReportSummary \<Rightarrow> VerificationResult \<Rightarrow> ReportSummary" where
  "tally summary r =
     (if Status r = CheckStatusPass then summary\<lparr>Passed := Passed summary + 1\<rparr>
      else if Status r = CheckStatusFail then summary\<lparr>Failed := Failed summary + 1\<rparr>
      else if Status r = CheckStatusWarn then summary\<lparr>Warnings := Warnings summary + 1\<rparr>
      else summary)"

definition Build :: "ReportBuilder \<Rightarrow> VerificationReport" where
  "Build b =
     (let summary = foldl tally
            \<lparr>TotalChecks = int (length (results b)), Passed = 0, Failed = 0, Warnings = 0\<rparr>
            (results b);
          exitCode = (if Failed summary > 0 then 1 else 0)
      in \<lparr>ContentFiles = files b, Summary = summary, Results = results b,
          ExitCode = exitCode\<rparr>)"

definition FilterByStatus :: "VerificationReport \<Rightarrow> CheckStatus \<Rightarrow> VerificationResult list" where
  "FilterByStatus r status = filter (\<lambda>result. Status result = status) (Results r)"

definition FilterByType :: "VerificationReport \<Rightarrow> CheckType \<Rightarrow> VerificationResult list" where
  "FilterByType r checkType = filter (\<lambda>result. CheckType result = checkType) (Results r)"

text \<open>The number of results of a list that carry a given status.\<close>

definition countStatus :: "CheckStatus \<Rightarrow> VerificationResult list \<Rightarrow> int" where
  "countStatus status rs = int (length (filter (\<lambda>r. Status r = status) rs))"

section \<open>Library functions the code calls\<close>

subsection \<open>Package strings\<close>

definition HasPrefix :: "string \<Rightarrow> string \<Rightarrow> bool" where
  "HasPrefix s p = prefix p s"

text \<open>\<open>strings.Contains\<close> (and \<open>bytes.Contains\<close>): \<open>substr\<close> occurs somewhere in \<open>s\<close>.\<close>

fun Contains :: "string \<Rightarrow> string \<Rightarrow> bool" where
  "Contains [] substr = (substr = [])"
| "Contains (c # cs) substr = (prefix substr (c # cs) \<or> Contains cs substr)"

text \<open>
  \<open>strings.TrimSpace\<close> removes leading and trailing white space as Unicode defines it:
  the ASCII characters tab, line feed, vertical tab, form feed, carriage return and space,
  and the UTF-8 encodings of U+0085, U+00A0, U+1680, U+2000 to U+200A, U+2028, U+2029,
  U+202F, U+205F and U+3000.
\<close>

definition spaceRunes :: "string list" where
  "spaceRunes =
     map (\<lambda>c. [c]) [CHR 0x09, CHR 0x0A, CHR 0x0B, CHR 0x0C, CHR 0x0D, CHR 0x20] @
     [[CHR 0xC2, CHR 0x85], [CHR 0xC2, CHR 0xA0], [CHR 0xE1, CHR 0x9A, CHR 0x80]] @
     map (\<lambda>c. [CHR 0xE2, CHR 0x80, c])
       [CHR 0x80, CHR 0x81, CHR 0x82, CHR 0x83, CHR 0x84, CHR 0x85, CHR 0x86, CHR 0x87,
        CHR 0x88, CHR 0x89, CHR 0x8A, CHR 0xA8, CHR 0xA9, CHR 0xAF] @
     [[CHR 0xE2, CHR 0x81, CHR 0x9F], [CHR 0xE3, CHR 0x80, CHR 0x80]]"

text \<open>
  Stripping leading members of a set of byte sequences; the fuel is the length of the
  string, and every sequence stripped is at least one byte long.
\<close>

fun trimLeading :: "nat \<Rightarrow> string list \<Rightarrow> string \<Rightarrow> string" where
  "trimLeading 0 seqs s = s"
| "trimLeading (Suc n) seqs s =
     (case find (\<lambda>p. prefix p s) seqs of
        None \<Rightarrow> s
      | Some p \<Rightarrow> trimLeading n seqs (drop (length p) s))"

definition TrimSpace :: "string \<Rightarrow> string" where
  "TrimSpace s =
     (let l = trimLeading (length s) spaceRunes s
      in rev (trimLeading (length l) (map rev spaceRunes) (rev l)))"

subsection \<open>Package strconv and fmt\<close>

definition lowerAZ :: string where "lowerAZ = ''abcdefghijklmnopqrstuvwxyz''"
definition upperAZ :: string where "upperAZ = ''ABCDEFGHIJKLMNOPQRSTUVWXYZ''"
definition digits09 :: string where "digits09 = ''0123456789''"

definition digitVal :: "char \<Rightarrow> int" where
  "digitVal c = (case map_of (zip digits09 [0, 1, 2, 3, 4, 5, 6, 7, 8, 9]) c of
                   None \<Rightarrow> 0 | Some d \<Rightarrow> d)"

definition decimalVal :: "string \<Rightarrow> int" where
  "decimalVal s = foldl (\<lambda>n c. 10 * n + digitVal c) 0 s"

text \<open>
  \<open>strconv.Atoi\<close> on a 64-bit platform, as the pair of the value and whether an error is
  returned with it: an optional sign, then decimal digits only; a syntax error gives 0; a
  number out of range gives the nearest bound of \<open>int\<close> (and the range error).
\<close>

definition Atoi :: "string \<Rightarrow> int \<times> bool" where
  "Atoi s =
     (let neg = (s \<noteq> [] \<and> hd s = CHR ''-'');
          ds = (if s \<noteq> [] \<and> (hd s = CHR ''-'' \<or> hd s = CHR ''+'') then tl s else s);
          v = decimalVal ds
      in if ds = [] \<or> \<not> list_all (\<lambda>c. c \<in> set digits09) ds then (0, True)
         else if \<not> neg \<and> v \<ge> 2 ^ 63 then (2 ^ 63 - 1, True)
         else if neg \<and> v > 2 ^ 63 then (- (2 ^ 63), True)
         else (if neg then - v else v, False))"

definition digitChar :: "int \<Rightarrow> char" where
  "digitChar d = digits09 ! nat (d mod 10)"

text \<open>The decimal digits of a number that is not negative.\<close>

function decimalDigits :: "int \<Rightarrow> string" where
  "decimalDigits n = (if n < 10 then [digitChar n] else decimalDigits (n div 10) @ [digitChar n])"
  by pat_completeness auto
termination
  by (relation "measure nat") auto

text \<open>The verb \<open>%d\<close> of \<open>fmt.Sprintf\<close> on an \<open>int\<close>.\<close>

definition Itoa :: "int \<Rightarrow> string" where
  "Itoa n = (if n < 0 then CHR ''-'' # decimalDigits (- n) else decimalDigits n)"

definition hexDigits :: string where "hexDigits = ''0123456789abcdef''"

text \<open>
  The verb \<open>%q\<close> (\<open>strconv.Quote\<close>): the string in double quotes, with the quote
  and the backslash escaped, the control characters written as escape sequences, and the
  other bytes below 0x80 as they are. Bytes from 0x80 on are copied: this is what Go does for
  the UTF-8 encoding of a printable character, and the model does not follow Go's Unicode
  tables beyond that.
\<close>

definition quoteByte :: "char \<Rightarrow> string" where
  "quoteByte c =
     (if c = CHR 0x22 then [CHR 0x5C, CHR 0x22]
      else if c = CHR 0x5C then [CHR 0x5C, CHR 0x5C]
      else case map_of (zip [CHR 0x07, CHR 0x08, CHR 0x0C, CHR 0x0A, CHR 0x0D, CHR 0x09, CHR 0x0B]
                            ''abfnrtv'') c of
        Some e \<Rightarrow> [CHR 0x5C, e]
      | None \<Rightarrow>
          if (of_char c :: int) < 32 \<or> c = CHR 0x7F
          then [CHR 0x5C, CHR ''x'', hexDigits ! nat (of_char c div 16),
                hexDigits ! nat (of_char c mod 16)]
          else [c])"

definition Quote :: "string \<Rightarrow> string" where
  "Quote s = CHR 0x22 # concat (map quoteByte s) @ [CHR 0x22]"

subsection \<open>Package regexp\<close>

text \<open>
  The patterns of the repository use literals, character classes, \<open>+\<close>, \<open>*\<close>, \<open>?\<close>,
  alternation, groups, \<open>\b\<close>, \<open>^\<close> and the flag \<open>(?i)\<close>. A pattern is a value of
  \<open>rx\<close>; \<open>r+\<close> is \<open>Seq r (Star r)\<close>, a group that does not capture is its body.

  Go's regexp package returns the leftmost match, and among the matches that start there
  the one a backtracking search finds first. \<open>rmatch\<close> is that search: it returns every
  way to match the pattern at a position, in the order a backtracking matcher tries them
  (a greedy operator tries the longer match first), so the head of the list is the match
  Go reports.

  The model works on bytes. Go matches UTF-8 sequences, but the literals and the positive
  classes of these patterns are ASCII, so a match starts and ends between characters, and a
  negated class accepts every byte of a longer sequence as Go accepts the sequence.
\<close>

datatype rx =
    Eps
  | Lit char
  | Cls bool string
  | Seq rx rx
  | Alt rx rx
  | Star rx
  | Opt rx
  | Grp nat rx
  | WordB
  | Bol

type_synonym regexp = rx

definition Plus :: "rx \<Rightarrow> rx" where
  "Plus r = Seq r (Star r)"

definition seqs :: "rx list \<Rightarrow> rx" where
  "seqs rs = foldr Seq rs Eps"

definition alts :: "rx list \<Rightarrow> rx" where
  "alts rs = foldr Alt (butlast rs) (last rs)"

definition lits :: "string \<Rightarrow> rx" where
  "lits s = seqs (map Lit s)"

text \<open>\<open>\d\<close> and \<open>\s\<close> are the ASCII classes \<open>[0-9]\<close> and \<open>[\t\n\f\r ]\<close>.\<close>

definition digit :: rx where
  "digit = Cls False digits09"

definition space :: rx where
  "space = Cls False [CHR 0x09, CHR 0x0A, CHR 0x0C, CHR 0x0D, CHR 0x20]"

text \<open>
  The flag \<open>(?i)\<close>: the parser replaces a letter by the class of its case variants. Two
  letters have a variant outside ASCII: \<open>k\<close> also matches U+212A (the Kelvin sign) and
  \<open>s\<close> also matches U+017F (the long s), here in their UTF-8 encodings. No pattern of
  the repository has a class with letters under \<open>(?i)\<close>, so classes are left as they are.
\<close>

definition foldLit :: "char \<Rightarrow> rx" where
  "foldLit c =
     (case map_of (zip (lowerAZ @ upperAZ) (upperAZ @ lowerAZ)) c of
        None \<Rightarrow> Lit c
      | Some d \<Rightarrow>
          if c \<in> set ''kK'' then Alt (Cls False [c, d]) (lits [CHR 0xE2, CHR 0x84, CHR 0xAA])
          else if c \<in> set ''sS'' then Alt (Cls False [c, d]) (lits [CHR 0xC5, CHR 0xBF])
          else Cls False [c, d])"

fun foldCase :: "rx \<Rightarrow> rx" where
  "foldCase (Lit c) = foldLit c"
| "foldCase (Seq a b) = Seq (foldCase a) (foldCase b)"
| "foldCase (Alt a b) = Alt (foldCase a) (foldCase b)"
| "foldCase (Star a) = Star (foldCase a)"
| "foldCase (Opt a) = Opt (foldCase a)"
| "foldCase (Grp i a) = Grp i (foldCase a)"
| "foldCase r = r"

text \<open>
  A position in the text: the bytes behind it (nearest first), the bytes ahead, and the
  groups captured so far (latest first).
\<close>

record mstate =
  behind :: string
  ahead :: string
  caps :: "(nat \<times> string) list"

definition isWordByte :: "char \<Rightarrow> bool" where
  "isWordByte c = (c \<in> set (lowerAZ @ upperAZ @ digits09 @ ''_''))"

definition consume :: "nat \<Rightarrow> mstate \<Rightarrow> mstate" where
  "consume n st = st\<lparr>behind := rev (take n (ahead st)) @ behind st, ahead := drop n (ahead st)\<rparr>"

definition atWordBoundary :: "mstate \<Rightarrow> bool" where
  "atWordBoundary st =
     ((case behind st of [] \<Rightarrow> False | c # _ \<Rightarrow> isWordByte c) \<noteq>
      (case ahead st of [] \<Rightarrow> False | c # _ \<Rightarrow> isWordByte c))"

definition capture :: "nat \<Rightarrow> mstate \<Rightarrow> mstate \<Rightarrow> mstate" where
  "capture i st st' =
     st'\<lparr>caps := (i, rev (take (length (behind st') - length (behind st)) (behind st'))) #
                  caps st'\<rparr>"

text \<open>
  The fuel bounds the iterations of a star; each iteration must consume a byte, so a fuel
  above the number of bytes ahead is never used up.
\<close>

fun rmatch :: "nat \<Rightarrow> rx \<Rightarrow> mstate \<Rightarrow> mstate list" where
  "rmatch n Eps st = [st]"
| "rmatch n (Lit c) st =
     (case ahead st of
        [] \<Rightarrow> []
      | x # _ \<Rightarrow> if x = c then [consume 1 st] else [])"
| "rmatch n (Cls neg cs) st =
     (case ahead st of
        [] \<Rightarrow> []
      | x # _ \<Rightarrow> if (x \<in> set cs) \<noteq> neg then [consume 1 st] else [])"
| "rmatch n (Seq a b) st = concat (map (rmatch n b) (rmatch n a st))"
| "rmatch n (Alt a b) st = rmatch n a st @ rmatch n b st"
| "rmatch n (Opt a) st = rmatch n a st @ [st]"
| "rmatch 0 (Star a) st = [st]"
| "rmatch (Suc n) (Star a) st =
     concat (map (\<lambda>st'. if length (ahead st') < length (ahead st)
                          then rmatch n (Star a) st' else [])
                 (rmatch (Suc n) a st)) @ [st]"
| "rmatch n (Grp i a) st = map (capture i st) (rmatch n a st)"
| "rmatch n WordB st = (if atWordBoundary st then [st] else [])"
| "rmatch n Bol st = (if behind st = [] then [st] else [])"

fun ngroups :: "rx \<Rightarrow> nat" where
  "ngroups (Seq a b) = max (ngroups a) (ngroups b)"
| "ngroups (Alt a b) = max (ngroups a) (ngroups b)"
| "ngroups (Star a) = ngroups a"
| "ngroups (Opt a) = ngroups a"
| "ngroups (Grp i a) = max i (ngroups a)"
| "ngroups r = 0"

text \<open>
  The leftmost match at or after a position: the text behind the start of the match, and
  the position where the match ends.
\<close>

fun search :: "regexp \<Rightarrow> string \<Rightarrow> string \<Rightarrow> (string \<times> mstate) option" where
  "search re bef [] =
     (case rmatch 1 re \<lparr>behind = bef, ahead = [], caps = []\<rparr> of
        [] \<Rightarrow> None
      | m # _ \<Rightarrow> Some (bef, m))"
| "search re bef (c # cs) =
     (case rmatch (Suc (Suc (length cs))) re \<lparr>behind = bef, ahead = c # cs, caps = []\<rparr> of
        [] \<Rightarrow> search re (c # bef) cs
      | m # _ \<Rightarrow> Some (bef, m))"

text \<open>
  A match as \<open>FindAllStringSubmatch\<close> returns it: the matched text, then the text of each
  group, the empty string for a group that took no part.
\<close>

definition submatches :: "regexp \<Rightarrow> string \<Rightarrow> mstate \<Rightarrow> string list" where
  "submatches re bef m =
     rev (take (length (behind m) - length bef) (behind m)) #
     map (\<lambda>i. case map_of (caps m) i of None \<Rightarrow> [] | Some s \<Rightarrow> s) [1 ..< Suc (ngroups re)]"

text \<open>
  The loop of \<open>Regexp.allMatches\<close>: successive matches that do not overlap. An empty match
  right after the previous match is dropped, and the search moves on by one position
  after an empty match (by one byte here, by one character in Go; no pattern of the
  repository matches the empty string).
\<close>

fun allMatches :: "nat \<Rightarrow> regexp \<Rightarrow> string \<Rightarrow> string \<Rightarrow> nat option \<Rightarrow> string list list" where
  "allMatches 0 re bef s prevMatchEnd = []"
| "allMatches (Suc n) re bef s prevMatchEnd =
     (case search re bef s of
        None \<Rightarrow> []
      | Some (sbef, m) \<Rightarrow>
          if length (behind m) = length bef
          then (if Some (length sbef) = prevMatchEnd then [] else [submatches re sbef m]) @
               (case s of
                  [] \<Rightarrow> []
                | c # cs \<Rightarrow> allMatches n re (c # bef) cs (Some (length (behind m))))
          else submatches re sbef m #
               allMatches n re (behind m) (ahead m) (Some (length (behind m))))"

definition MatchString :: "regexp \<Rightarrow> string \<Rightarrow> bool" where
  "MatchString re s = (search re [] s \<noteq> None)"

definition FindAllStringSubmatch :: "regexp \<Rightarrow> string \<Rightarrow> string list list" where
  "FindAllStringSubmatch re s = allMatches (Suc (length s)) re [] s None"

definition FindAllString :: "regexp \<Rightarrow> string \<Rightarrow> string list" where
  "FindAllString re s = map hd (FindAllStringSubmatch re s)"

section \<open>Extractors\<close>

subsection \<open>Citations (citations.go)\<close>

text \<open>\<^verbatim>\<open>@paper:([a-zA-Z0-9_-]+)\<close>\<close>

definition citationPattern :: regexp where
  "citationPattern =
     Seq (lits ''@paper:'') (Grp 1 (Plus (Cls False (lowerAZ @ upperAZ @ digits09 @ ''_-''))))"

text \<open>
  One turn of the loop of \<open>ExtractCitations\<close> over the matches; the state is the map
  \<open>seen\<close> (a missing key reads as false) and the slice built so far.
\<close>

definition citationStep ::
  "(string \<Rightarrow> bool) \<times> string list \<Rightarrow> string list \<Rightarrow> (string \<Rightarrow> bool) \<times> string list" where
  "citationStep st m =
     (if length m > 1 \<and> \<not> fst st (m ! 1)
      then ((fst st)(m ! 1 := True), snd st @ [m ! 1])
      else st)"

definition ExtractCitations :: "string \<Rightarrow> string list" where
  "ExtractCitations content =
     snd (foldl citationStep (\<lambda>k. False, []) (FindAllStringSubmatch citationPattern content))"

subsection \<open>URLs (urls.go)\<close>

text \<open>\<^verbatim>\<open>https?://[^\s\)\]>]+\<close>\<close>

definition urlPattern :: regexp where
  "urlPattern =
     seqs [lits ''http'', Opt (Lit CHR ''s''), lits ''://'',
           Plus (Cls True ([CHR 0x09, CHR 0x0A, CHR 0x0C, CHR 0x0D, CHR 0x20] @ '')]>''))]"

definition ExtractURLs :: "string \<Rightarrow> string list" where
  "ExtractURLs content = FindAllString urlPattern content"

subsection \<open>Code permalinks (codelinks.go)\<close>

text \<open>\<^verbatim>\<open>https://github\.com/([^/]+)/([^/]+)/blob/([a-f0-9]+)/([^#]+)#L(\d+)(?:-L(\d+))?\<close>\<close>

definition githubPermalinkPattern :: regexp where
  "githubPermalinkPattern = seqs
     [lits ''https://github.com/'',
      Grp 1 (Plus (Cls True ''/'')), Lit CHR ''/'',
      Grp 2 (Plus (Cls True ''/'')), lits ''/blob/'',
      Grp 3 (Plus (Cls False (''abcdef'' @ digits09))), Lit CHR ''/'',
      Grp 4 (Plus (Cls True ''#'')), lits ''#L'',
      Grp 5 (Plus digit),
      Opt (seqs [lits ''-L'', Grp 6 (Plus digit)])]"

record CodeLinkMatch =
  FullURL :: string
  Owner :: string
  Repo :: string
  CommitSHA :: string
  FilePath :: string
  StartLine :: int
  EndLine :: int

text \<open>The body of the loop of \<open>ExtractCodeLinks\<close> for a match \<open>m\<close> with \<open>len(m) \<ge> 6\<close>.\<close>

definition codeLinkOfMatch :: "string list \<Rightarrow> CodeLinkMatch" where
  "codeLinkOfMatch m =
     (let startLine = fst (Atoi (m ! 5));
          endLine = (if length m > 6 \<and> m ! 6 \<noteq> [] then fst (Atoi (m ! 6)) else startLine)
      in \<lparr>FullURL = m ! 0, Owner = m ! 1, Repo = m ! 2, CommitSHA = m ! 3, FilePath = m ! 4,
          StartLine = startLine, EndLine = endLine\<rparr>)"

definition ExtractCodeLinks :: "string \<Rightarrow> CodeLinkMatch list" where
  "ExtractCodeLinks content =
     map codeLinkOfMatch
       (filter (\<lambda>m. \<not> length m < 6) (FindAllStringSubmatch githubPermalinkPattern content))"

subsection \<open>TODO markers and claim heuristics (claims.go)\<close>

text \<open>\<^verbatim>\<open>(?i)\b(TODO|FIXME|XXX|HACK)\b:?\s*\<close>\<close>

definition todoMarkerPattern :: regexp where
  "todoMarkerPattern = foldCase (seqs
     [WordB, Grp 1 (alts [lits ''TODO'', lits ''FIXME'', lits ''XXX'', lits ''HACK'']), WordB,
      Opt (Lit CHR '':''), Star space])"

definition ExtractTodoMarkers :: "string \<Rightarrow> string list" where
  "ExtractTodoMarkers content = FindAllString todoMarkerPattern content"

text \<open>
  \<^verbatim>\<open>(?i)\b(\d+%|\d+x|faster|slower|better|worse)\s+(than|compared to)\<close>,
  \<^verbatim>\<open>(?i)\b(discovered|introduced|invented|developed)\s+by\<close>,
  \<^verbatim>\<open>(?i)\b(as shown|as described|according to|as demonstrated)\s+(in|by)\<close>,
  \<^verbatim>\<open>(?i)\bstudies\s+(have\s+)?(shown|demonstrated|found|revealed)\<close>
\<close>

definition mustCitePatterns :: "regexp list" where
  "mustCitePatterns =
     [foldCase (seqs
        [WordB,
         Grp 1 (alts [Seq (Plus digit) (Lit CHR ''%''), Seq (Plus digit) (Lit CHR ''x''),
                      lits ''faster'', lits ''slower'', lits ''better'', lits ''worse'']),
         Plus space, Grp 2 (alts [lits ''than'', lits ''compared to''])]),
      foldCase (seqs
        [WordB,
         Grp 1 (alts [lits ''discovered'', lits ''introduced'', lits ''invented'',
                      lits ''developed'']),
         Plus space, lits ''by'']),
      foldCase (seqs
        [WordB,
         Grp 1 (alts [lits ''as shown'', lits ''as described'', lits ''according to'',
                      lits ''as demonstrated'']),
         Plus space, Grp 2 (alts [lits ''in'', lits ''by''])]),
      foldCase (seqs
        [WordB, lits ''studies'', Plus space, Opt (Grp 1 (Seq (lits ''have'') (Plus space))),
         Grp 2 (alts [lits ''shown'', lits ''demonstrated'', lits ''found'',
                      lits ''revealed''])])]"

text \<open>
  \<^verbatim>\<open>(?i)\b(causes?|leads?\s+to|results?\s+in)\b\<close>,
  \<^verbatim>\<open>(?i)\b(O\(n|O\(log|complexity\s+of)\<close>,
  \<^verbatim>\<open>(?i)\b(historically|traditionally|originally)\b\<close>
\<close>

definition shouldCitePatterns :: "regexp list" where
  "shouldCitePatterns =
     [foldCase (seqs
        [WordB,
         Grp 1 (alts [Seq (lits ''cause'') (Opt (Lit CHR ''s'')),
                      seqs [lits ''lead'', Opt (Lit CHR ''s''), Plus space, lits ''to''],
                      seqs [lits ''result'', Opt (Lit CHR ''s''), Plus space, lits ''in'']]),
         WordB]),
      foldCase (seqs
        [WordB,
         Grp 1 (alts [lits ''O(n'', lits ''O(log'',
                      seqs [lits ''complexity'', Plus space, lits ''of'']])]),
      foldCase (seqs
        [WordB,
         Grp 1 (alts [lits ''historically'', lits ''traditionally'', lits ''originally'']),
         WordB])]"

text \<open>
  \<^verbatim>\<open>(?i)\b(is\s+defined\s+as|refers?\s+to|means?)\b\<close>,
  \<^verbatim>\<open>(?i)\b(for\s+example|e\.g\.|such\s+as|i\.e\.)\b\<close>,
  \<^verbatim>\<open>(?i)\b(in\s+this\s+(section|chapter)|we\s+now|let\s+us)\b\<close>,
  and the code fence at the beginning of the text
\<close>

definition exemptPatterns :: "regexp list" where
  "exemptPatterns =
     [foldCase (seqs
        [WordB,
         Grp 1 (alts [seqs [lits ''is'', Plus space, lits ''defined'', Plus space, lits ''as''],
                      seqs [lits ''refer'', Opt (Lit CHR ''s''), Plus space, lits ''to''],
                      Seq (lits ''mean'') (Opt (Lit CHR ''s''))]),
         WordB]),
      foldCase (seqs
        [WordB,
         Grp 1 (alts [seqs [lits ''for'', Plus space, lits ''example''], lits ''e.g.'',
                      seqs [lits ''such'', Plus space, lits ''as''], lits ''i.e.'']),
         WordB]),
      foldCase (seqs
        [WordB,
         Grp 1 (alts [seqs [lits ''in'', Plus space, lits ''this'', Plus space,
                            Grp 2 (alts [lits ''section'', lits ''chapter''])],
                      seqs [lits ''we'', Plus space, lits ''now''],
                      seqs [lits ''let'', Plus space, lits ''us'']]),
         WordB]),
      Seq Bol (lits [CHR 0x60, CHR 0x60, CHR 0x60])]"

definition AnalyzeClaimWithHeuristics :: "string \<Rightarrow> bool \<times> string \<times> string" where
  "AnalyzeClaimWithHeuristics sentence0 =
     (let sentence = TrimSpace sentence0
      in if list_ex (\<lambda>p. MatchString p sentence) exemptPatterns
         then (False, ''high'', ''Sentence is a definition, example, or transitional prose'')
         else if list_ex (\<lambda>p. MatchString p sentence) mustCitePatterns
         then (True, ''high'', ''Sentence contains comparison, attribution, or cites prior work'')
         else if list_ex (\<lambda>p. MatchString p sentence) shouldCitePatterns
         then (True, ''medium'', ''Sentence contains causal claim or complexity statement'')
         else (False, ''low'', ''No citation-requiring patterns detected''))"

section \<open>The world outside the process\<close>

text \<open>
  The verifiers shell out to command-line tools, send HTTP requests and read files. What
  those calls answer is a parameter of the model, one field for each call:

  \<^item> \<open>readFile\<close>: \<open>os.ReadFile\<close> and \<open>os.Open\<close> of a path: the error text or the content;
  \<^item> \<open>lookPath\<close>: \<open>exec.LookPath\<close> of a program name: \<open>None\<close> when it is found, the
    error text otherwise;
  \<^item> \<open>bipGet\<close>: running \<open>bip s2 get <id>\<close>: \<open>None\<close> when the command succeeds, the
    text it wrote to standard error when it fails;
  \<^item> \<open>ghApi\<close>: running \<open>gh api <path>\<close> and decoding its output, see \<open>ghResponse\<close>;
  \<^item> \<open>httpNewRequest\<close>: the error of \<open>http.NewRequestWithContext\<close> for a URL, if any;
  \<^item> \<open>httpDo\<close>: \<open>client.Do\<close> for a method and a URL, redirects and timeouts included: the
    error text, or the status code of the response;
  \<^item> \<open>llmAnalyzeClaim\<close>: \<open>Client.AnalyzeClaim\<close> of package llm for a provider and a
    sentence: the error text, or the decoded answer of the language model.
\<close>

datatype ghResponse =
    GhFailed string    \<comment> \<open>the command failed; what it wrote to standard error\<close>
  | GhBadJSON string   \<comment> \<open>\<open>json.Unmarshal\<close> of the output failed; the error text\<close>
  | GhSize int         \<comment> \<open>the field \<open>size\<close> of the decoded output\<close>

record ClaimAnalysisResult =
  NeedsCitation :: bool
  AnalysisConfidence :: string
  Reason :: string
  AnalysisSuggestedAction :: string

record env =
  readFile :: "string \<Rightarrow> string + string"
  lookPath :: "string \<Rightarrow> string option"
  bipGet :: "string \<Rightarrow> string option"
  ghApi :: "string \<Rightarrow> ghResponse"
  httpNewRequest :: "string \<Rightarrow> string option"
  httpDo :: "string \<Rightarrow> string \<Rightarrow> string + int"
  llmAnalyzeClaim :: "string \<Rightarrow> string \<Rightarrow> string + ClaimAnalysisResult"

text \<open>A run-time panic of Go: here only a slice expression \<open>s[:hi]\<close> beyond the length.\<close>

datatype panic = SliceBoundsOutOfRange nat nat

definition sliceTo :: "string \<Rightarrow> nat \<Rightarrow> panic + string" where
  "sliceTo s hi = (if hi > length s then Inl (SliceBoundsOutOfRange hi (length s)) else Inr (take hi s))"

text \<open>Division of two \<open>int\<close>s in Go truncates toward zero.\<close>

definition quo :: "int \<Rightarrow> int \<Rightarrow> int" where
  "quo a b = sgn a * sgn b * (\<bar>a\<bar> div \<bar>b\<bar>)"

section \<open>Verifiers\<close>

definition mkResult ::
  "CheckType \<Rightarrow> string \<Rightarrow> int \<Rightarrow> string \<Rightarrow> CheckStatus \<Rightarrow> string \<Rightarrow> VerificationDetails
     \<Rightarrow> VerificationResult" where
  "mkResult checkType file line text status message details =
     \<lparr>CheckType = checkType, Target = \<lparr>File = file, Line = line, Text = text\<rparr>,
      Status = status, Message = message, Details = details\<rparr>"

subsection \<open>Citations (citations.go)\<close>

text \<open>The pair returned by \<open>lookupPaperInBipartite\<close>: the flag and the error, if any.\<close>

definition lookupPaperInBipartite :: "env \<Rightarrow> string \<Rightarrow> bool \<times> string option" where
  "lookupPaperInBipartite e paperID =
     (case lookPath e ''bip'' of
        Some err \<Rightarrow> (False, Some (''bip CLI not found: '' @ err))
      | None \<Rightarrow>
          (case bipGet e paperID of
             Some stderrStr \<Rightarrow>
               if Contains stderrStr ''not found'' \<or> Contains stderrStr ''no such''
               then (False, None)
               else (False, Some (''bip lookup failed: '' @ stderrStr))
           | None \<Rightarrow> (True, None)))"

definition VerifyCitation :: "env \<Rightarrow> string \<Rightarrow> string \<Rightarrow> int \<Rightarrow> string \<Rightarrow> VerificationResult" where
  "VerifyCitation e paperID file line text =
     (case lookupPaperInBipartite e paperID of
        (resolved, Some err) \<Rightarrow>
          mkResult CheckTypeCitation file line text CheckStatusFail
            (''Failed to verify paper ID '' @ Quote paperID @ '': '' @ err)
            (noDetails\<lparr>Citation := Some \<lparr>PaperID = paperID, Resolved = False\<rparr>\<rparr>)
      | (resolved, None) \<Rightarrow>
          mkResult CheckTypeCitation file line text
            (if resolved then CheckStatusPass else CheckStatusFail)
            (if resolved then ''Paper ID '' @ Quote paperID @ '' resolved successfully''
             else ''Paper ID '' @ Quote paperID @ '' not found in bipartite'')
            (noDetails\<lparr>Citation := Some \<lparr>PaperID = paperID, Resolved = resolved\<rparr>\<rparr>))"

subsection \<open>URLs (urls.go)\<close>

text \<open>The request with the method HEAD, and the one with GET when the first fails.\<close>

definition probe :: "env \<Rightarrow> string \<Rightarrow> string + int" where
  "probe e url =
     (case httpDo e ''HEAD'' url of
        Inl err \<Rightarrow> httpDo e ''GET'' url
      | Inr statusCode \<Rightarrow> Inr statusCode)"

definition VerifyURL :: "env \<Rightarrow> string \<Rightarrow> string \<Rightarrow> int \<Rightarrow> string \<Rightarrow> VerificationResult" where
  "VerifyURL e url file line text =
     (case httpNewRequest e url of
        Some err \<Rightarrow>
          mkResult CheckTypeURL file line text CheckStatusFail
            (''Invalid URL '' @ Quote url @ '': '' @ err)
            (noDetails\<lparr>URL := Some \<lparr>DetailsURL = url, HTTPStatus = None, Error = Some err\<rparr>\<rparr>)
      | None \<Rightarrow>
          (case probe e url of
             Inl err \<Rightarrow>
               mkResult CheckTypeURL file line text CheckStatusFail
                 (''URL '' @ Quote url @ '' is not accessible: '' @ err)
                 (noDetails\<lparr>URL := Some \<lparr>DetailsURL = url, HTTPStatus = None, Error = Some err\<rparr>\<rparr>)
           | Inr statusCode \<Rightarrow>
               mkResult CheckTypeURL file line text
                 (if statusCode \<ge> 200 \<and> statusCode < 400 then CheckStatusPass
                  else if statusCode \<ge> 400 \<and> statusCode < 500 then CheckStatusFail
                  else CheckStatusWarn)
                 (if statusCode \<ge> 200 \<and> statusCode < 400
                  then ''URL '' @ Quote url @ '' is accessible (HTTP '' @ Itoa statusCode @ '')''
                  else if statusCode \<ge> 400 \<and> statusCode < 500
                  then ''URL '' @ Quote url @ '' returned client error (HTTP '' @
                       Itoa statusCode @ '')''
                  else ''URL '' @ Quote url @ '' returned unexpected status (HTTP '' @
                       Itoa statusCode @ '')'')
                 (noDetails\<lparr>URL := Some \<lparr>DetailsURL = url, HTTPStatus = Some statusCode,
                                          Error = None\<rparr>\<rparr>)))"

subsection \<open>Code permalinks (codelinks.go)\<close>

definition estimatedCharsPerLine :: int where
  "estimatedCharsPerLine = 30"

definition apiPath :: "string \<Rightarrow> string \<Rightarrow> string \<Rightarrow> string \<Rightarrow> string" where
  "apiPath owner repo sha filePath =
     ''repos/'' @ owner @ ''/'' @ repo @ ''/contents/'' @ filePath @ ''?ref='' @ sha"

text \<open>
  \<open>checkFileExistsAtCommit\<close> returns \<open>(exists, lineCount, isEstimated, err)\<close>; the error is
  the last component, \<open>None\<close> for nil.
\<close>

definition checkFileExistsAtCommit ::
  "env \<Rightarrow> string \<Rightarrow> string \<Rightarrow> string \<Rightarrow> string \<Rightarrow> bool \<times> int \<times> bool \<times> string option" where
  "checkFileExistsAtCommit e owner repo sha filePath =
     (case ghApi e (apiPath owner repo sha filePath) of
        GhFailed stderrStr \<Rightarrow>
          if Contains stderrStr ''404'' \<or> Contains stderrStr ''Not Found''
          then (False, 0, False, None)
          else (False, 0, False, Some (''gh api error: '' @ stderrStr))
      | GhBadJSON err \<Rightarrow> (False, 0, False, Some (''parse response: '' @ err))
      | GhSize responseSize \<Rightarrow>
          (let estimatedLines = quo responseSize estimatedCharsPerLine
           in (True, if estimatedLines < 1 then 1 else estimatedLines, True, None)))"

definition codeLinkDetails :: "string \<Rightarrow> bool \<Rightarrow> bool \<Rightarrow> VerificationDetails" where
  "codeLinkDetails permalink fileExists lineRangeValid =
     noDetails\<lparr>CodeLink := Some \<lparr>Permalink = permalink, FileExists = fileExists,
                                 LineRangeValid = lineRangeValid\<rparr>\<rparr>"

definition rangeMessage :: "CodeLinkMatch \<Rightarrow> int \<Rightarrow> string" where
  "rangeMessage link lineCount =
     ''Line range L'' @ Itoa (StartLine link) @ ''-L'' @ Itoa (EndLine link) @
     '' exceeds file length ('' @ Itoa lineCount @ '' lines)''"

text \<open>
  \<open>VerifyCodeLink\<close> either returns a result or panics: the message for a missing file is
  formatted from \<open>link.CommitSHA[:8]\<close>.
\<close>

definition VerifyCodeLink ::
  "env \<Rightarrow> CodeLinkMatch \<Rightarrow> string \<Rightarrow> int \<Rightarrow> string \<Rightarrow> panic + VerificationResult" where
  "VerifyCodeLink e link file line text =
     (case lookPath e ''gh'' of
        Some err \<Rightarrow>
          Inr (mkResult CheckTypeCodeLink file line text CheckStatusWarn
                 (''Cannot verify code link '' @ Quote (FullURL link) @ '': gh CLI not found'')
                 (codeLinkDetails (FullURL link) False False))
      | None \<Rightarrow>
          (case checkFileExistsAtCommit e (Owner link) (Repo link) (CommitSHA link)
                  (FilePath link) of
             (fileExists, estimatedLineCount, isEstimated, Some err) \<Rightarrow>
               Inr (mkResult CheckTypeCodeLink file line text CheckStatusFail
                      (''Failed to verify code link '' @ Quote (FullURL link) @ '': '' @ err)
                      (codeLinkDetails (FullURL link) False False))
           | (fileExists, estimatedLineCount, isEstimated, None) \<Rightarrow>
               (let lineRangeSkipped = (fileExists \<and> isEstimated);
                    lineRangeValid =
                      (fileExists \<and> \<not> isEstimated \<and> estimatedLineCount > 0 \<and>
                       StartLine link \<le> estimatedLineCount \<and> EndLine link \<le> estimatedLineCount)
                in if \<not> fileExists then
                     (case sliceTo (CommitSHA link) 8 of
                        Inl p \<Rightarrow> Inl p
                      | Inr sha8 \<Rightarrow>
                          Inr (mkResult CheckTypeCodeLink file line text CheckStatusFail
                                 (''File '' @ Quote (FilePath link) @
                                  '' does not exist at commit '' @ sha8)
                                 (codeLinkDetails (FullURL link) fileExists lineRangeValid)))
                   else if lineRangeSkipped then
                     Inr (mkResult CheckTypeCodeLink file line text CheckStatusWarn
                            (''Code link '' @ Quote (FullURL link) @
                             '': file exists but line range L'' @ Itoa (StartLine link) @
                             ''-L'' @ Itoa (EndLine link) @
                             '' could not be verified (line count estimated)'')
                            (codeLinkDetails (FullURL link) fileExists True))
                   else if \<not> lineRangeValid then
                     Inr (mkResult CheckTypeCodeLink file line text CheckStatusFail
                            (rangeMessage link estimatedLineCount)
                            (codeLinkDetails (FullURL link) fileExists lineRangeValid))
                   else
                     Inr (mkResult CheckTypeCodeLink file line text CheckStatusPass
                            (''Code link '' @ Quote (FullURL link) @ '' is valid'')
                            (codeLinkDetails (FullURL link) fileExists lineRangeValid)))))"

text \<open>
  The file \<open>scribe/internal/verify/codelinks.go\<close> of the snapshot holds another revision of
  the same two functions, without the flag \<open>isEstimated\<close>: \<open>checkFileAtCommit\<close> returns
  \<open>(exists, lineCount, err)\<close> and the line range is compared with the estimate.
\<close>

definition checkFileAtCommit ::
  "env \<Rightarrow> string \<Rightarrow> string \<Rightarrow> string \<Rightarrow> string \<Rightarrow> bool \<times> int \<times> string option" where
  "checkFileAtCommit e owner repo sha filePath =
     (case ghApi e (apiPath owner repo sha filePath) of
        GhFailed stderrStr \<Rightarrow>
          if Contains stderrStr ''404'' \<or> Contains stderrStr ''Not Found''
          then (False, 0, None)
          else (False, 0, Some (''gh api error: '' @ stderrStr))
      | GhBadJSON err \<Rightarrow> (False, 0, Some (''parse response: '' @ err))
      | GhSize responseSize \<Rightarrow>
          (let estimatedLines = quo responseSize 30
           in (True, if estimatedLines < 1 then 1 else estimatedLines, None)))"

definition VerifyCodeLinkStrict ::
  "env \<Rightarrow> CodeLinkMatch \<Rightarrow> string \<Rightarrow> int \<Rightarrow> string \<Rightarrow> panic + VerificationResult" where
  "VerifyCodeLinkStrict e link file line text =
     (case lookPath e ''gh'' of
        Some err \<Rightarrow>
          Inr (mkResult CheckTypeCodeLink file line text CheckStatusWarn
                 (''Cannot verify code link '' @ Quote (FullURL link) @ '': gh CLI not found'')
                 (codeLinkDetails (FullURL link) False False))
      | None \<Rightarrow>
          (case checkFileAtCommit e (Owner link) (Repo link) (CommitSHA link) (FilePath link) of
             (fileExists, lineCount, Some err) \<Rightarrow>
               Inr (mkResult CheckTypeCodeLink file line text CheckStatusFail
                      (''Failed to verify code link '' @ Quote (FullURL link) @ '': '' @ err)
                      (codeLinkDetails (FullURL link) False False))
           | (fileExists, lineCount, None) \<Rightarrow>
               (let lineRangeValid =
                      (fileExists \<and> lineCount > 0 \<and>
                       StartLine link \<le> lineCount \<and> EndLine link \<le> lineCount)
                in if fileExists \<and> lineRangeValid then
                     Inr (mkResult CheckTypeCodeLink file line text CheckStatusPass
                            (''Code link '' @ Quote (FullURL link) @ '' is valid'')
                            (codeLinkDetails (FullURL link) fileExists lineRangeValid))
                   else if \<not> fileExists then
                     (case sliceTo (CommitSHA link) 8 of
                        Inl p \<Rightarrow> Inl p
                      | Inr sha8 \<Rightarrow>
                          Inr (mkResult CheckTypeCodeLink file line text CheckStatusFail
                                 (''File '' @ Quote (FilePath link) @
                                  '' does not exist at commit '' @ sha8)
                                 (codeLinkDetails (FullURL link) fileExists lineRangeValid)))
                   else
                     Inr (mkResult CheckTypeCodeLink file line text CheckStatusFail
                            (rangeMessage link lineCount)
                            (codeLinkDetails (FullURL link) fileExists lineRangeValid)))))"

subsection \<open>TODO markers and claims (claims.go, llm/client.go)\<close>

definition VerifyTodoMarker :: "string \<Rightarrow> string \<Rightarrow> int \<Rightarrow> string \<Rightarrow> VerificationResult" where
  "VerifyTodoMarker marker file line text =
     mkResult CheckTypeTodoMarker file line text CheckStatusFail
       ''TODO/FIXME marker found - remove before publishing'' noDetails"

text \<open>
  The calls that reach the language model or look for its command-line tool are recorded,
  in the order the code makes them.
\<close>

datatype oracleCall =
    LookPathCall string
  | AnalyzeClaimCall string string

text \<open>
  \<open>llm.NewClient\<close>: the provider and its model (or the error), and the calls made.
\<close>

definition NewClient :: "env \<Rightarrow> (string + string \<times> string) \<times> oracleCall list" where
  "NewClient e =
     (case lookPath e ''claude'' of
        None \<Rightarrow> (Inr (''claude'', []), [LookPathCall ''claude''])
      | Some err \<Rightarrow>
          (case lookPath e ''ollama'' of
             None \<Rightarrow> (Inr (''ollama'', ''llama3.2''),
                       [LookPathCall ''claude'', LookPathCall ''ollama''])
           | Some err' \<Rightarrow> (Inl ''no LLM provider available: install claude CLI or ollama'',
                           [LookPathCall ''claude'', LookPathCall ''ollama''])))"

definition IsAvailable :: "env \<Rightarrow> bool \<times> oracleCall list" where
  "IsAvailable e = (case NewClient e of (Inl err, calls) \<Rightarrow> (False, calls)
                                     | (Inr client, calls) \<Rightarrow> (True, calls))"

text \<open>
  The block of \<open>VerifyClaim\<close> that runs once the heuristics are inconclusive and the use of
  the language model is allowed: it returns the verdict that stands, and the calls made.
\<close>

definition llmFallback ::
  "env \<Rightarrow> string \<Rightarrow> bool \<times> string \<times> string \<Rightarrow> (bool \<times> string \<times> string) \<times> oracleCall list" where
  "llmFallback e sentence verdict =
     (case IsAvailable e of
        (False, calls) \<Rightarrow> (verdict, calls)
      | (True, calls) \<Rightarrow>
          (case NewClient e of
             (Inl err, calls') \<Rightarrow> (verdict, calls @ calls')
           | (Inr (provider, model), calls') \<Rightarrow>
               (case llmAnalyzeClaim e provider sentence of
                  Inl err \<Rightarrow> (verdict, calls @ calls' @ [AnalyzeClaimCall provider sentence])
                | Inr analysis \<Rightarrow>
                    ((NeedsCitation analysis, AnalysisConfidence analysis, Reason analysis),
                     calls @ calls' @ [AnalyzeClaimCall provider sentence]))))"

definition claimDetails :: "string \<Rightarrow> string \<Rightarrow> string \<Rightarrow> VerificationDetails" where
  "claimDetails sentence confidence action =
     noDetails\<lparr>Claim := Some \<lparr>ClaimText = sentence, Confidence = confidence,
                              SuggestedAction = action\<rparr>\<rparr>"

text \<open>\<open>VerifyClaim\<close> with the record of the calls it made.\<close>

definition VerifyClaimCalls ::
  "env \<Rightarrow> string \<Rightarrow> string \<Rightarrow> int \<Rightarrow> bool \<Rightarrow> bool \<Rightarrow> VerificationResult \<times> oracleCall list" where
  "VerifyClaimCalls e sentence file line hasCitation useLLM =
     (if hasCitation then
        (mkResult CheckTypeClaim file line sentence CheckStatusPass ''Claim has citation''
           (claimDetails sentence ''high'' ''no action needed''), [])
      else
        (case (let verdict = AnalyzeClaimWithHeuristics sentence
               in if fst (snd verdict) = ''low'' \<and> useLLM then llmFallback e sentence verdict
                  else (verdict, [])) of
           ((needsCitation, confidence, reason), calls) \<Rightarrow>
             (if needsCitation then
                mkResult CheckTypeClaim file line sentence CheckStatusFail
                  ''Uncited factual claim detected''
                  (claimDetails sentence confidence ''add citation'')
              else
                mkResult CheckTypeClaim file line sentence CheckStatusPass reason
                  (claimDetails sentence confidence ''no action needed''),
              calls)))"

definition VerifyClaim ::
  "env \<Rightarrow> string \<Rightarrow> string \<Rightarrow> int \<Rightarrow> bool \<Rightarrow> bool \<Rightarrow> VerificationResult" where
  "VerifyClaim e sentence file line hasCitation useLLM =
     fst (VerifyClaimCalls e sentence file line hasCitation useLLM)"

section \<open>Verifying files (verify.go)\<close>

record Options =
  UseLLM :: bool

definition DefaultOptions :: Options where
  "DefaultOptions = \<lparr>UseLLM = True\<rparr>"

text \<open>What a call can come to: a panic, a returned error, or a returned value.\<close>

datatype 'a ret = Panic panic | Err string | Ok 'a

fun findLineNumberFrom :: "int \<Rightarrow> string list \<Rightarrow> string \<Rightarrow> int" where
  "findLineNumberFrom i [] substr = 0"
| "findLineNumberFrom i (line # lines) substr =
     (if Contains line substr then i + 1 else findLineNumberFrom (i + 1) lines substr)"

definition findLineNumber :: "string list \<Rightarrow> string \<Rightarrow> int" where
  "findLineNumber lines substr = findLineNumberFrom 0 lines substr"

text \<open>
  \<open>splitSentences\<close> walks the characters of the text; the terminators are ASCII, so the
  walk over bytes cuts at the same places (for text that is valid UTF-8, which the loop
  copies unchanged).
\<close>

fun splitSentencesFrom :: "string \<Rightarrow> string \<Rightarrow> string list" where
  "splitSentencesFrom current [] =
     (let s = TrimSpace current in if length s > 0 then [s] else [])"
| "splitSentencesFrom current (r # rs) =
     (if r = CHR ''.'' \<or> r = CHR ''?'' \<or> r = CHR ''!''
      then (let s = TrimSpace (current @ [r]) in if length s > 0 then [s] else []) @
           splitSentencesFrom [] rs
      else splitSentencesFrom (current @ [r]) rs)"

definition splitSentences :: "string \<Rightarrow> string list" where
  "splitSentences text = splitSentencesFrom [] text"

text \<open>
  The lines \<open>bufio.Scanner\<close> yields: the text is cut at each line feed, a last line
  without one counts when it is not empty, and one trailing carriage return is dropped from
  each line. The scanner fails with \<open>ErrTooLong\<close> on a line that does not fit its buffer
  of 64 KiB.
\<close>

fun rawLines :: "string \<Rightarrow> string \<Rightarrow> string list" where
  "rawLines current [] = (if current = [] then [] else [current])"
| "rawLines current (c # cs) =
     (if c = CHR 0x0A then current # rawLines [] cs else rawLines (current @ [c]) cs)"

definition dropCR :: "string \<Rightarrow> string" where
  "dropCR data = (if data \<noteq> [] \<and> last data = CHR 0x0D then butlast data else data)"

definition maxScanTokenSize :: int where
  "maxScanTokenSize = 64 * 1024"

definition lineTextAt :: "string list \<Rightarrow> int \<Rightarrow> string" where
  "lineTextAt lines lineNum =
     (if lineNum > 0 \<and> lineNum \<le> int (length lines) then lines ! nat (lineNum - 1) else [])"

text \<open>The loops of \<open>VerifyFile\<close>, in the order the function runs them.\<close>

definition todoResults :: "string \<Rightarrow> string list \<Rightarrow> VerificationResult list" where
  "todoResults filePath lines =
     concat (map (\<lambda>(i, line).
                if MatchString todoMarkerPattern line
                then map (\<lambda>marker. VerifyTodoMarker marker filePath (int i + 1) line)
                       (FindAllString todoMarkerPattern line)
                else [])
             (enumerate 0 lines))"

definition citationResults ::
  "env \<Rightarrow> string \<Rightarrow> string \<Rightarrow> string list \<Rightarrow> VerificationResult list" where
  "citationResults e filePath contentStr lines =
     map (\<lambda>citation.
            (let lineNum = findLineNumber lines (''@paper:'' @ citation)
             in VerifyCitation e citation filePath lineNum (lineTextAt lines lineNum)))
         (ExtractCitations contentStr)"

definition urlResults ::
  "env \<Rightarrow> string \<Rightarrow> string \<Rightarrow> string list \<Rightarrow> VerificationResult list" where
  "urlResults e filePath contentStr lines =
     map (\<lambda>url.
            (let lineNum = findLineNumber lines url
             in VerifyURL e url filePath lineNum (lineTextAt lines lineNum)))
         (filter (\<lambda>url. \<not> (Contains url ''github.com'' \<and> Contains url ''/blob/''))
            (ExtractURLs contentStr))"

fun codeLinkResults ::
  "env \<Rightarrow> string \<Rightarrow> string list \<Rightarrow> CodeLinkMatch list \<Rightarrow> panic + VerificationResult list" where
  "codeLinkResults e filePath lines [] = Inr []"
| "codeLinkResults e filePath lines (link # links) =
     (let lineNum = findLineNumber lines (FullURL link)
      in case VerifyCodeLink e link filePath lineNum (lineTextAt lines lineNum) of
           Inl p \<Rightarrow> Inl p
         | Inr r \<Rightarrow>
             (case codeLinkResults e filePath lines links of
                Inl p \<Rightarrow> Inl p
              | Inr rs \<Rightarrow> Inr (r # rs)))"

text \<open>
  The flag \<open>hasCitation\<close> of a sentence on line \<open>lineNum\<close> (counted from 1): the sentence
  matches the citation pattern, or \<open>lines[lineNum-1]\<close> does.
\<close>

definition hasCitationAt :: "string list \<Rightarrow> int \<Rightarrow> string \<Rightarrow> bool" where
  "hasCitationAt lines lineNum sentence =
     (MatchString citationPattern sentence \<or>
      (lineNum > 0 \<and> lineNum \<le> int (length lines) \<and>
       MatchString citationPattern (lines ! nat (lineNum - 1))))"

definition claimResultsLine ::
  "env \<Rightarrow> string \<Rightarrow> Options \<Rightarrow> string list \<Rightarrow> nat \<Rightarrow> string \<Rightarrow> VerificationResult list" where
  "claimResultsLine e filePath opts lines i line =
     (let lineNum = int i + 1
      in if HasPrefix line ''---'' \<or> HasPrefix line [CHR 0x60, CHR 0x60, CHR 0x60] \<or>
            HasPrefix line ''#'' \<or> TrimSpace line = []
         then []
         else concat (map (\<lambda>sentence0.
                 (let sentence = TrimSpace sentence0
                  in if length sentence < 20 then []
                     else (let hasCitation = hasCitationAt lines lineNum sentence;
                               result = VerifyClaim e sentence filePath lineNum hasCitation
                                          (UseLLM opts)
                           in if Status result = CheckStatusFail then [result] else [])))
               (splitSentences line)))"

definition claimResults ::
  "env \<Rightarrow> string \<Rightarrow> Options \<Rightarrow> string list \<Rightarrow> VerificationResult list" where
  "claimResults e filePath opts lines =
     concat (map (\<lambda>(i, line). claimResultsLine e filePath opts lines i line) (enumerate 0 lines))"

definition VerifyFile :: "env \<Rightarrow> string \<Rightarrow> Options \<Rightarrow> VerificationResult list ret" where
  "VerifyFile e filePath opts =
     (case readFile e filePath of
        Inl err \<Rightarrow> Err err
      | Inr contentStr \<Rightarrow>
          (let raw = rawLines [] contentStr;
               lines = map dropCR raw
           in if list_ex (\<lambda>l. int (length l) \<ge> maxScanTokenSize) raw
              then Err ''bufio.Scanner: token too long''
              else (case codeLinkResults e filePath lines (ExtractCodeLinks contentStr) of
                      Inl p \<Rightarrow> Panic p
                    | Inr links \<Rightarrow>
                        Ok (todoResults filePath lines @
                            citationResults e filePath contentStr lines @
                            urlResults e filePath contentStr lines @
                            links @
                            claimResults e filePath opts lines))))"

text \<open>The loop of \<open>VerifyFiles\<close> over the files, and the report built at its end.\<close>

fun verifyFilesLoop :: "env \<Rightarrow> Options \<Rightarrow> ReportBuilder \<Rightarrow> string list \<Rightarrow> ReportBuilder ret" where
  "verifyFilesLoop e opts builder [] = Ok builder"
| "verifyFilesLoop e opts builder (file # rest) =
     (case VerifyFile e file opts of
        Panic p \<Rightarrow> Panic p
      | Err err \<Rightarrow>
          verifyFilesLoop e opts
            (AddResult (AddFile builder file)
               (mkResult CheckTypeCitation file 0 [] CheckStatusFail err noDetails))
            rest
      | Ok rs \<Rightarrow> verifyFilesLoop e opts (foldl AddResult (AddFile builder file) rs) rest)"

definition VerifyFiles :: "env \<Rightarrow> string list \<Rightarrow> Options \<Rightarrow> VerificationReport ret" where
  "VerifyFiles e fs opts =
     (case verifyFilesLoop e opts NewReportBuilder fs of
        Panic p \<Rightarrow> Panic p
      | Err err \<Rightarrow> Err err
      | Ok builder \<Rightarrow> Ok (Build builder))"

section \<open>Notions used to state the properties\<close>

text \<open>
  The citation tokens of a text in the order they occur, repetitions included: the first
  group of each match of the citation pattern.
\<close>

definition citationTokens :: "string \<Rightarrow> string list" where
  "citationTokens content =
     map (\<lambda>m. m ! 1) (filter (\<lambda>m. length m > 1) (FindAllStringSubmatch citationPattern content))"

text \<open>A list of results in which every check of a claim has the status fail.\<close>

definition claimsAllFail :: "VerificationResult list \<Rightarrow> bool" where
  "claimsAllFail rs =
     list_all (\<lambda>r. CheckType r = CheckTypeClaim \<longrightarrow> Status r = CheckStatusFail) rs"

section \<open>Example inputs\<close>

text \<open>
  Two files and two states of the world, used to run the model on concrete inputs. In
  \<open>offlineEnv\<close> no tool is installed and no host can be reached. In \<open>onlineEnv\<close> the
  \<open>gh\<close> tool is installed, the file \<open>file.go\<close> does not exist at commit \<open>abc123\<close>, the
  file \<open>path/to/file.c\<close> has 45 bytes, and a server answers GET requests (404 for one
  page) but not HEAD requests.
\<close>

definition notFoundError :: "string \<Rightarrow> string" where
  "notFoundError name = ''exec: '' @ Quote name @ '': executable file not found in $PATH''"

definition notesFile :: string where
  "notesFile = ''Benchmarks are reported in [@paper:smith2020].'' @ [CHR 0x0A] @
               ''Method A is 40% faster than method B.'' @ [CHR 0x0A]"

definition linksFile :: string where
  "linksFile = ''See https://github.com/owner/repo/blob/abc123/file.go#L10-L20'' @ [CHR 0x0A]"

definition offlineEnv :: env where
  "offlineEnv =
     \<lparr>readFile = (\<lambda>path. if path = ''notes.md'' then Inr notesFile
                         else if path = ''links.md'' then Inr linksFile
                         else Inl (''open '' @ path @ '': no such file or directory'')),
      lookPath = (\<lambda>name. Some (notFoundError name)),
      bipGet = (\<lambda>paperID. Some ''bip: command not found''),
      ghApi = (\<lambda>path. GhFailed ''gh: command not found''),
      httpNewRequest = (\<lambda>url. None),
      httpDo = (\<lambda>method url. Inl ''dial tcp: lookup failed: no such host''),
      llmAnalyzeClaim = (\<lambda>provider sentence. Inl ''LLM analysis failed'')\<rparr>"

definition onlineEnv :: env where
  "onlineEnv =
     offlineEnv\<lparr>
       lookPath := (\<lambda>name. if name = ''gh'' then None else Some (notFoundError name)),
       ghApi := (\<lambda>path.
          if path = ''repos/owner/repo/contents/path/to/file.c?ref=abc123def456'' then GhSize 45
          else GhFailed ''gh: Not Found (HTTP 404)''),
       httpDo := (\<lambda>method url.
          if method = ''HEAD'' then Inl ''Head: EOF''
          else if url = ''https://example.org/gone'' then Inr 404 else Inr 200)\<rparr>"

text \<open>The links of the two permalinks in the repository's test of \<open>ExtractCodeLinks\<close>.\<close>

definition rangeLink :: CodeLinkMatch where
  "rangeLink =
     \<lparr>FullURL = ''https://github.com/owner/repo/blob/abc123/file.go#L10-L20'',
      Owner = ''owner'', Repo = ''repo'', CommitSHA = ''abc123'', FilePath = ''file.go'',
      StartLine = 10, EndLine = 20\<rparr>"

definition singleLink :: CodeLinkMatch where
  "singleLink =
     \<lparr>FullURL = ''https://github.com/owner/repo/blob/abc123def456/path/to/file.c#L42'',
      Owner = ''owner'', Repo = ''repo'', CommitSHA = ''abc123def456'',
      FilePath = ''path/to/file.c'', StartLine = 42, EndLine = 42\<rparr>"

section \<open>Properties of the report builder\<close>

lemma tally_TotalChecks: "TotalChecks (foldl tally s rs) = TotalChecks s"
  by (induction rs arbitrary: s) (simp_all add: tally_def)

lemma tally_Passed: "Passed (foldl tally s rs) = Passed s + countStatus CheckStatusPass rs"
  by (induction rs arbitrary: s) (simp_all add: tally_def countStatus_def CheckStatus_defs)

lemma tally_Failed: "Failed (foldl tally s rs) = Failed s + countStatus CheckStatusFail rs"
  by (induction rs arbitrary: s) (simp_all add: tally_def countStatus_def CheckStatus_defs)

lemma tally_Warnings: "Warnings (foldl tally s rs) = Warnings s + countStatus CheckStatusWarn rs"
  by (induction rs arbitrary: s) (simp_all add: tally_def countStatus_def CheckStatus_defs)

lemma results_AddResults: "results (foldl AddResult b rs) = results b @ rs"
  by (induction rs arbitrary: b) (simp_all add: AddResult_def)

lemma Failed_Build: "Failed (Summary (Build b)) = countStatus CheckStatusFail (results b)"
  by (simp add: Build_def Let_def tally_Failed)

lemma ExitCode_Build:
  "ExitCode (Build b) = (if 0 < countStatus CheckStatusFail (results b) then 1 else 0)"
  by (simp add: Build_def Let_def tally_Failed)

lemma countStatus_append: "countStatus s (xs @ ys) = countStatus s xs + countStatus s ys"
  by (simp add: countStatus_def)

lemma countStatus_drop_other:
  "s \<noteq> t \<Longrightarrow> countStatus s (filter (\<lambda>r. Status r \<noteq> t) rs) = countStatus s rs"
  by (induction rs) (auto simp: countStatus_def)

lemma countStatus_mset: "mset xs = mset ys \<Longrightarrow> countStatus s xs = countStatus s ys"
proof -
  assume "mset xs = mset ys"
  then have "mset (filter (\<lambda>r. Status r = s) xs) = mset (filter (\<lambda>r. Status r = s) ys)"
    by simp
  then have "length (filter (\<lambda>r. Status r = s) xs) = length (filter (\<lambda>r. Status r = s) ys)"
    by (rule mset_eq_length)
  then show ?thesis by (simp add: countStatus_def)
qed

text \<open>
  C1. Whatever results were added to a builder, \<open>Build\<close> sets \<open>ExitCode\<close> to 1 when the
  number of results with status fail is greater than 0 and to 0 otherwise. Results with
  status warn play no part: removing every one of them from the sequence leaves the exit
  code as it was.
\<close>

theorem Build_exit_code:
  "ExitCode (Build (foldl AddResult NewReportBuilder rs)) =
     (if 0 < countStatus CheckStatusFail rs then 1 else 0)
   \<and> ExitCode (Build (foldl AddResult NewReportBuilder
          (filter (\<lambda>r. Status r \<noteq> CheckStatusWarn) rs))) =
     ExitCode (Build (foldl AddResult NewReportBuilder rs))"
proof -
  have neq: "CheckStatusFail \<noteq> CheckStatusWarn"
    by (simp add: CheckStatus_defs)
  have res: "\<And>xs. results (foldl AddResult NewReportBuilder xs) = xs"
    by (simp add: results_AddResults NewReportBuilder_def)
  show ?thesis
    by (simp add: ExitCode_Build res countStatus_drop_other [OF neq])
qed

theorem Build_exit_code_witness:
  "ExitCode (Build (foldl AddResult NewReportBuilder
      [zeroResult CheckTypeCitation CheckStatusPass, zeroResult CheckTypeURL CheckStatusFail,
       zeroResult CheckTypeCodeLink CheckStatusWarn])) = 1
   \<and> ExitCode (Build (foldl AddResult NewReportBuilder
      [zeroResult CheckTypeCitation CheckStatusPass,
       zeroResult CheckTypeURL CheckStatusFail])) = 1"
  using Build_exit_code [of "[zeroResult CheckTypeCitation CheckStatusPass,
      zeroResult CheckTypeURL CheckStatusFail, zeroResult CheckTypeCodeLink CheckStatusWarn]"]
  by (simp add: countStatus_def zeroResult_def CheckStatus_defs)

text \<open>
  C8. In the report produced by \<open>Build\<close> the summary is the partition of the report's own
  result list by status: \<open>Passed\<close>, \<open>Failed\<close> and \<open>Warnings\<close> count the results with status
  pass, fail and warn, and \<open>TotalChecks\<close> is the length of the list. The counts are
  recomputed from the list, so two builders that received the same results in a different
  order produce the same summary.
\<close>

theorem Build_summary_partition:
  "Passed (Summary (Build b)) = countStatus CheckStatusPass (Results (Build b))
   \<and> Failed (Summary (Build b)) = countStatus CheckStatusFail (Results (Build b))
   \<and> Warnings (Summary (Build b)) = countStatus CheckStatusWarn (Results (Build b))
   \<and> TotalChecks (Summary (Build b)) = int (length (Results (Build b)))
   \<and> (mset rs = mset rs' \<longrightarrow>
        Summary (Build (foldl AddResult NewReportBuilder rs)) =
        Summary (Build (foldl AddResult NewReportBuilder rs')))"
proof -
  have parts:
    "Passed (Summary (Build c)) = countStatus CheckStatusPass (results c)"
    "Failed (Summary (Build c)) = countStatus CheckStatusFail (results c)"
    "Warnings (Summary (Build c)) = countStatus CheckStatusWarn (results c)"
    "TotalChecks (Summary (Build c)) = int (length (results c))"
    "Results (Build c) = results c" for c
    by (simp_all add: Build_def Let_def tally_Passed tally_Failed tally_Warnings
        tally_TotalChecks)
  have res: "\<And>xs. results (foldl AddResult NewReportBuilder xs) = xs"
    by (simp add: results_AddResults NewReportBuilder_def)
  have order: "Summary (Build (foldl AddResult NewReportBuilder rs)) =
      Summary (Build (foldl AddResult NewReportBuilder rs'))" if eq: "mset rs = mset rs'"
  proof -
    have len: "length rs = length rs'"
      using eq by (rule mset_eq_length)
    show ?thesis
      by (rule ReportSummary.equality)
        (simp_all add: parts res len countStatus_mset [OF eq])
  qed
  show ?thesis
    using order by (simp add: parts)
qed

theorem Build_summary_partition_witness:
  "Summary (Build (foldl AddResult NewReportBuilder
      [zeroResult CheckTypeCitation CheckStatusPass, zeroResult CheckTypeURL CheckStatusFail,
       zeroResult CheckTypeCodeLink CheckStatusWarn])) =
     \<lparr>TotalChecks = 3, Passed = 1, Failed = 1, Warnings = 1\<rparr>
   \<and> Summary (Build (foldl AddResult NewReportBuilder
      [zeroResult CheckTypeCodeLink CheckStatusWarn, zeroResult CheckTypeURL CheckStatusFail,
       zeroResult CheckTypeCitation CheckStatusPass])) =
     \<lparr>TotalChecks = 3, Passed = 1, Failed = 1, Warnings = 1\<rparr>"
proof -
  let ?p = "zeroResult CheckTypeCitation CheckStatusPass"
  let ?f = "zeroResult CheckTypeURL CheckStatusFail"
  let ?w = "zeroResult CheckTypeCodeLink CheckStatusWarn"
  let ?b = "foldl AddResult NewReportBuilder [?p, ?f, ?w]"
  have res: "Results (Build ?b) = [?p, ?f, ?w]"
    by (simp add: Build_def Let_def AddResult_def NewReportBuilder_def)
  have perm: "mset [?p, ?f, ?w] = mset [?w, ?f, ?p]"
    by (simp add: add.commute add.left_commute)
  have cnt: "countStatus CheckStatusPass [?p, ?f, ?w] = 1"
    "countStatus CheckStatusFail [?p, ?f, ?w] = 1"
    "countStatus CheckStatusWarn [?p, ?f, ?w] = 1"
    "int (length [?p, ?f, ?w]) = 3"
    by (simp_all add: countStatus_def zeroResult_def CheckStatus_defs)
  note th = Build_summary_partition [of ?b "[?p, ?f, ?w]" "[?w, ?f, ?p]"]
  have fields: "Passed (Summary (Build ?b)) = 1" "Failed (Summary (Build ?b)) = 1"
    "Warnings (Summary (Build ?b)) = 1" "TotalChecks (Summary (Build ?b)) = 3"
    using th by (simp_all only: res cnt)
  have sum: "Summary (Build ?b) = \<lparr>TotalChecks = 3, Passed = 1, Failed = 1, Warnings = 1\<rparr>"
    by (rule ReportSummary.equality) (simp_all only: fields ReportSummary.select_convs, simp)
  have same: "Summary (Build (foldl AddResult NewReportBuilder [?w, ?f, ?p])) = Summary (Build ?b)"
    using th perm by (simp only:)
  show ?thesis
    by (simp only: same sum)
qed

section \<open>Properties of the citation extractor\<close>

lemma remdups_drop_later: "x \<in> set zs \<Longrightarrow> remdups (ys @ x # zs) = remdups (ys @ zs)"
  by (induction ys) auto

lemma citationStep_new:
  "length m > 1 \<Longrightarrow> m ! 1 \<notin> set acc \<Longrightarrow>
   citationStep (\<lambda>k. k \<in> set acc, acc) m = (\<lambda>k. k \<in> set (acc @ [m ! 1]), acc @ [m ! 1])"
  by (auto simp: citationStep_def fun_eq_iff)

lemma citationStep_old:
  "\<not> (length m > 1 \<and> m ! 1 \<notin> set acc) \<Longrightarrow>
   citationStep (\<lambda>k. k \<in> set acc, acc) m = (\<lambda>k. k \<in> set acc, acc)"
  by (auto simp: citationStep_def)

lemma citationStep_fold:
  "distinct acc \<Longrightarrow>
   snd (foldl citationStep (\<lambda>k. k \<in> set acc, acc) ms) =
     rev (remdups (rev (acc @ map (\<lambda>m. m ! 1) (filter (\<lambda>m. length m > 1) ms))))"
proof (induction ms arbitrary: acc)
  case Nil
  then show ?case by (simp add: distinct_remdups_id)
next
  case (Cons m ms)
  let ?toks = "map (\<lambda>m. m ! 1) (filter (\<lambda>m. length m > 1) ms)"
  show ?case
  proof (cases "length m > 1 \<and> m ! 1 \<notin> set acc")
    case True
    have d: "distinct (acc @ [m ! 1])"
      using Cons.prems True by simp
    have "snd (foldl citationStep (\<lambda>k. k \<in> set acc, acc) (m # ms)) =
          snd (foldl citationStep (\<lambda>k. k \<in> set (acc @ [m ! 1]), acc @ [m ! 1]) ms)"
      using True by (simp add: citationStep_new del: set_append)
    also have "\<dots> = rev (remdups (rev ((acc @ [m ! 1]) @ ?toks)))"
      by (rule Cons.IH [OF d])
    finally show ?thesis
      using True by simp
  next
    case False
    have "snd (foldl citationStep (\<lambda>k. k \<in> set acc, acc) (m # ms)) =
          snd (foldl citationStep (\<lambda>k. k \<in> set acc, acc) ms)"
      using False by (simp add: citationStep_old)
    also have "\<dots> = rev (remdups (rev (acc @ ?toks)))"
      by (rule Cons.IH [OF Cons.prems])
    finally have step: "snd (foldl citationStep (\<lambda>k. k \<in> set acc, acc) (m # ms)) =
        rev (remdups (rev (acc @ ?toks)))" .
    show ?thesis
    proof (cases "length m > 1")
      case True
      with False have mem: "m ! 1 \<in> set (rev acc)" by simp
      have "remdups (rev ?toks @ m ! 1 # rev acc) = remdups (rev ?toks @ rev acc)"
        using mem by (rule remdups_drop_later)
      then show ?thesis
        using True step by simp
    next
      case False
      then show ?thesis
        using step by simp
    qed
  qed
qed

text \<open>
  C7. \<open>ExtractCitations\<close> returns each citation token of the text once, in the order of
  the first occurrences: the result has no duplicates, it holds exactly the tokens of the
  text, and it is the list of tokens with every later repetition removed. The result is a
  function of the text alone: the code reads nothing else, and the map \<open>seen\<close> is only
  probed by key, never iterated.
\<close>

theorem ExtractCitations_first_seen:
  "distinct (ExtractCitations T) \<and>
   ExtractCitations T = rev (remdups (rev (citationTokens T))) \<and>
   set (ExtractCitations T) = set (citationTokens T)"
proof -
  have e: "(\<lambda>k. False) = (\<lambda>k. k \<in> set ([] :: string list))" by simp
  have eq: "ExtractCitations T = rev (remdups (rev (citationTokens T)))"
    unfolding ExtractCitations_def citationTokens_def e
    using citationStep_fold [of "[]"] by simp
  show ?thesis
    by (simp add: eq)
qed

theorem ExtractCitations_first_seen_witness:
  "ExtractCitations ''Compare @paper:b and @paper:a with @paper:b again.'' = [''b'', ''a''] \<and>
   citationTokens ''Compare @paper:b and @paper:a with @paper:b again.'' = [''b'', ''a'', ''b'']"
proof -
  have t: "citationTokens ''Compare @paper:b and @paper:a with @paper:b again.'' = [''b'', ''a'', ''b'']"
    by code_simp
  show ?thesis
    using ExtractCitations_first_seen [of "''Compare @paper:b and @paper:a with @paper:b again.''"]
    by (simp only: t) simp
qed

section \<open>Properties of the permalink extractor\<close>







section \<open>Properties of the URL verifier\<close>

lemma Itoa_404: "Itoa 404 = ''404''"
  by (simp add: Itoa_def digitChar_def digits09_def)

text \<open>
  C5. When the request can be built and the probe (HEAD, then GET if HEAD fails) obtains a
  response, the status of the result is pass for a status code from 200 to 399, fail for
  one from 400 to 499, and warn for any other; for the code 404 the message contains the
  text \<open>404\<close>.
\<close>

theorem VerifyURL_status:
  assumes "httpNewRequest e url = None" and "probe e url = Inr statusCode"
  shows "(200 \<le> statusCode \<and> statusCode < 400 \<longrightarrow>
            Status (VerifyURL e url file line text) = CheckStatusPass)
       \<and> (400 \<le> statusCode \<and> statusCode < 500 \<longrightarrow>
            Status (VerifyURL e url file line text) = CheckStatusFail)
       \<and> (\<not> (200 \<le> statusCode \<and> statusCode < 500) \<longrightarrow>
            Status (VerifyURL e url file line text) = CheckStatusWarn)
       \<and> (statusCode = 404 \<longrightarrow> sublist ''404'' (Message (VerifyURL e url file line text)))"
proof -
  have "sublist ''404'' (''URL '' @ Quote url @ '' returned client error (HTTP '' @ ''404'' @ '')'')"
    unfolding sublist_def by (metis append.assoc)
  then show ?thesis
    using assms by (auto simp: VerifyURL_def mkResult_def Itoa_404)
qed

theorem VerifyURL_status_witness:
  "Status (VerifyURL onlineEnv ''https://example.org/gone'' ''doc.md'' 3 ''text'') = CheckStatusFail
   \<and> sublist ''404'' (Message (VerifyURL onlineEnv ''https://example.org/gone'' ''doc.md'' 3 ''text''))
   \<and> probe onlineEnv ''https://example.org/gone'' = Inr 404"
proof -
  have p: "probe onlineEnv ''https://example.org/gone'' = Inr 404"
    by (simp add: probe_def onlineEnv_def offlineEnv_def)
  have n: "httpNewRequest onlineEnv ''https://example.org/gone'' = None"
    by (simp add: onlineEnv_def offlineEnv_def)
  show ?thesis
    using VerifyURL_status [OF n p, of "''doc.md''" 3 "''text''"] p by simp
qed

section \<open>Properties of the permalink, citation and claim verifiers\<close>


lemma checkFileAtCommit_size:
  "ghApi e (apiPath owner repo sha filePath) = GhSize sz \<Longrightarrow>
   checkFileAtCommit e owner repo sha filePath = (True, max 1 (quo sz 30), None)"
  by (simp add: checkFileAtCommit_def Let_def max_def)

lemma checkFileExistsAtCommit_absent:
  "ghApi e (apiPath owner repo sha filePath) = GhFailed stderrStr \<Longrightarrow>
   Contains stderrStr ''404'' \<or> Contains stderrStr ''Not Found'' \<Longrightarrow>
   checkFileExistsAtCommit e owner repo sha filePath = (False, 0, False, None)"
  by (simp add: checkFileExistsAtCommit_def)

lemma checkFileAtCommit_absent:
  "ghApi e (apiPath owner repo sha filePath) = GhFailed stderrStr \<Longrightarrow>
   Contains stderrStr ''404'' \<or> Contains stderrStr ''Not Found'' \<Longrightarrow>
   checkFileAtCommit e owner repo sha filePath = (False, 0, None)"
  by (simp add: checkFileAtCommit_def)


text \<open>
  The other revision of the function compares the range with the estimate and fails when
  the first line lies beyond it.
\<close>

lemma VerifyCodeLinkStrict_estimated_fail:
  assumes "lookPath e ''gh'' = None"
      and "ghApi e (apiPath (Owner link) (Repo link) (CommitSHA link) (FilePath link)) = GhSize sz"
      and "max 1 (quo sz 30) < StartLine link"
  shows "\<exists>r. VerifyCodeLinkStrict e link file line text = Inr r \<and> Status r = CheckStatusFail"
proof -
  have "\<not> StartLine link \<le> max 1 (quo sz 30)"
    using assms(3) by linarith
  then show ?thesis
    by (simp add: VerifyCodeLinkStrict_def assms(1) checkFileAtCommit_size [OF assms(2)] Let_def
        mkResult_def)
qed

text \<open>
  C9. When the \<open>gh\<close> tool is installed, the API call reports that the file does not
  exist at the commit (a failure whose error text contains \<open>404\<close> or \<open>Not Found\<close>),
  and the commit identifier of the link has fewer than 8 characters, \<open>VerifyCodeLink\<close>
  panics on the slice \<open>CommitSHA[:8]\<close> and returns no result. Both revisions of the
  function do.
\<close>

theorem VerifyCodeLink_short_sha_panics:
  assumes "lookPath e ''gh'' = None"
      and "ghApi e (apiPath (Owner link) (Repo link) (CommitSHA link) (FilePath link)) =
             GhFailed stderrStr"
      and "Contains stderrStr ''404'' \<or> Contains stderrStr ''Not Found''"
      and "length (CommitSHA link) < 8"
  shows "VerifyCodeLink e link file line text =
           Inl (SliceBoundsOutOfRange 8 (length (CommitSHA link)))
       \<and> VerifyCodeLinkStrict e link file line text =
           Inl (SliceBoundsOutOfRange 8 (length (CommitSHA link)))"
  using assms(4)
  by (simp add: VerifyCodeLink_def VerifyCodeLinkStrict_def assms(1) Let_def sliceTo_def
      checkFileExistsAtCommit_absent [OF assms(2,3)] checkFileAtCommit_absent [OF assms(2,3)])




section \<open>Properties of the file verifier and the claim verifier\<close>

lemma CheckType_VerifyTodoMarker [simp]:
  "CheckType (VerifyTodoMarker marker file line text) = CheckTypeTodoMarker"
  by (simp add: VerifyTodoMarker_def mkResult_def)

lemma CheckType_VerifyCitation [simp]:
  "CheckType (VerifyCitation e paperID file line text) = CheckTypeCitation"
  by (simp add: VerifyCitation_def mkResult_def split: prod.splits option.splits)

lemma CheckType_VerifyURL [simp]:
  "CheckType (VerifyURL e url file line text) = CheckTypeURL"
  by (simp add: VerifyURL_def mkResult_def split: option.splits sum.splits)

lemma CheckType_VerifyCodeLink:
  "VerifyCodeLink e link file line text = Inr r \<Longrightarrow> CheckType r = CheckTypeCodeLink"
  by (auto simp: VerifyCodeLink_def mkResult_def Let_def
      split: option.splits prod.splits sum.splits if_splits)

lemma CheckType_codeLinkResults:
  "codeLinkResults e filePath lines links = Inr rs \<Longrightarrow> r \<in> set rs \<Longrightarrow>
   CheckType r = CheckTypeCodeLink"
proof (induction links arbitrary: rs)
  case Nil
  then show ?case by simp
next
  case (Cons link links)
  from Cons.prems(1) obtain r0 rs0 where
    r0: "VerifyCodeLink e link filePath (findLineNumber lines (FullURL link))
           (lineTextAt lines (findLineNumber lines (FullURL link))) = Inr r0"
    and rs0: "codeLinkResults e filePath lines links = Inr rs0" and rs: "rs = r0 # rs0"
    by (auto simp: Let_def split: sum.splits)
  show ?case
    using Cons.prems(2) Cons.IH [OF rs0] CheckType_VerifyCodeLink [OF r0] rs by auto
qed

lemma claimResultsLine_fail:
  "r \<in> set (claimResultsLine e filePath opts lines i line) \<Longrightarrow> Status r = CheckStatusFail"
  by (auto simp: claimResultsLine_def Let_def split: if_splits)

lemma claimResults_fail:
  "r \<in> set (claimResults e filePath opts lines) \<Longrightarrow> Status r = CheckStatusFail"
  by (auto simp: claimResults_def dest: claimResultsLine_fail)

lemma todoResults_type:
  "r \<in> set (todoResults filePath lines) \<Longrightarrow> CheckType r = CheckTypeTodoMarker"
  by (auto simp: todoResults_def split: if_splits)

lemma citationResults_type:
  "r \<in> set (citationResults e filePath contentStr lines) \<Longrightarrow> CheckType r = CheckTypeCitation"
  by (auto simp: citationResults_def Let_def)

lemma urlResults_type:
  "r \<in> set (urlResults e filePath contentStr lines) \<Longrightarrow> CheckType r = CheckTypeURL"
  by (auto simp: urlResults_def Let_def)

lemma claimsAllFail_iff:
  "claimsAllFail rs = (\<forall>r \<in> set rs. CheckType r = CheckTypeClaim \<longrightarrow> Status r = CheckStatusFail)"
  by (simp add: claimsAllFail_def list_all_iff)

lemma VerifyFile_claimsAllFail:
  assumes "VerifyFile e filePath opts = Ok rs"
  shows "claimsAllFail rs"
proof -
  from assms obtain contentStr links where
    links: "codeLinkResults e filePath (map dropCR (rawLines [] contentStr))
              (ExtractCodeLinks contentStr) = Inr links"
    and rs: "rs = todoResults filePath (map dropCR (rawLines [] contentStr)) @
               citationResults e filePath contentStr (map dropCR (rawLines [] contentStr)) @
               urlResults e filePath contentStr (map dropCR (rawLines [] contentStr)) @
               links @
               claimResults e filePath opts (map dropCR (rawLines [] contentStr))"
    by (auto simp: VerifyFile_def Let_def split: sum.splits if_splits)
  have ne: "CheckTypeTodoMarker \<noteq> CheckTypeClaim" "CheckTypeCitation \<noteq> CheckTypeClaim"
    "CheckTypeURL \<noteq> CheckTypeClaim" "CheckTypeCodeLink \<noteq> CheckTypeClaim"
    by (simp_all add: CheckType_defs)
  show ?thesis
    unfolding claimsAllFail_iff rs
    using ne
    by (auto dest: todoResults_type citationResults_type urlResults_type
        CheckType_codeLinkResults [OF links] claimResults_fail)
qed

lemma claimsAllFail_foldl_AddResult:
  "claimsAllFail (results (foldl AddResult b rs)) = (claimsAllFail (results b) \<and> claimsAllFail rs)"
  by (simp add: results_AddResults claimsAllFail_def)

lemma verifyFilesLoop_claimsAllFail:
  "verifyFilesLoop e opts b fs = Ok b' \<Longrightarrow> claimsAllFail (results b) \<Longrightarrow>
   claimsAllFail (results b')"
proof (induction fs arbitrary: b)
  case Nil
  then show ?case by simp
next
  case (Cons path fs)
  show ?case
  proof (cases "VerifyFile e path opts")
    case (Panic p)
    with Cons.prems show ?thesis by simp
  next
    case (Err err)
    have "claimsAllFail (results (AddResult (AddFile b path)
            (mkResult CheckTypeCitation path 0 [] CheckStatusFail err noDetails)))"
      using Cons.prems(2) by (simp add: AddResult_def AddFile_def claimsAllFail_def mkResult_def)
    with Cons.prems(1) Err Cons.IH show ?thesis by simp
  next
    case (Ok rs)
    have "claimsAllFail (results (foldl AddResult (AddFile b path) rs))"
      using Cons.prems(2) VerifyFile_claimsAllFail [OF Ok]
      by (simp add: claimsAllFail_foldl_AddResult AddFile_def)
    with Cons.prems(1) Ok Cons.IH show ?thesis by simp
  qed
qed

lemma countStatus_no_claims:
  "claimsAllFail rs \<Longrightarrow> s \<noteq> CheckStatusFail \<Longrightarrow>
   countStatus s rs = countStatus s (filter (\<lambda>r. CheckType r \<noteq> CheckTypeClaim) rs)"
  by (induction rs) (auto simp: countStatus_def claimsAllFail_def)

text \<open>
  C10. In the list \<open>VerifyFile\<close> returns, every result of a claim check has the status
  fail: the loop over the sentences appends a result only then. The same holds for the
  report of \<open>VerifyFiles\<close>, so the passed and warning counts of its summary count no claim
  check.
\<close>

theorem VerifyFile_claim_results_fail:
  "(VerifyFile e filePath opts = Ok rs \<longrightarrow>
      (\<forall>r \<in> set rs. CheckType r = CheckTypeClaim \<longrightarrow> Status r = CheckStatusFail))
   \<and> (VerifyFiles e fs opts = Ok report \<longrightarrow>
      (\<forall>r \<in> set (Results report). CheckType r = CheckTypeClaim \<longrightarrow> Status r = CheckStatusFail)
      \<and> Passed (Summary report) =
          countStatus CheckStatusPass (filter (\<lambda>r. CheckType r \<noteq> CheckTypeClaim) (Results report))
      \<and> Warnings (Summary report) =
          countStatus CheckStatusWarn (filter (\<lambda>r. CheckType r \<noteq> CheckTypeClaim) (Results report)))"
proof (intro conjI impI)
  assume "VerifyFile e filePath opts = Ok rs"
  then show "\<forall>r \<in> set rs. CheckType r = CheckTypeClaim \<longrightarrow> Status r = CheckStatusFail"
    using VerifyFile_claimsAllFail claimsAllFail_iff by blast
next
  assume a: "VerifyFiles e fs opts = Ok report"
  then obtain b where b: "verifyFilesLoop e opts NewReportBuilder fs = Ok b"
    and r: "report = Build b"
    by (auto simp: VerifyFiles_def split: ret.splits)
  have all: "claimsAllFail (results b)"
    using verifyFilesLoop_claimsAllFail [OF b] by (simp add: NewReportBuilder_def claimsAllFail_def)
  have res: "Results report = results b"
    by (simp add: r Build_def Let_def)
  show "\<forall>r \<in> set (Results report). CheckType r = CheckTypeClaim \<longrightarrow> Status r = CheckStatusFail"
    using all by (simp add: res claimsAllFail_iff)
  have ne: "CheckStatusPass \<noteq> CheckStatusFail" "CheckStatusWarn \<noteq> CheckStatusFail"
    by (simp_all add: CheckStatus_defs)
  show "Passed (Summary report) =
      countStatus CheckStatusPass (filter (\<lambda>r. CheckType r \<noteq> CheckTypeClaim) (Results report))"
    using countStatus_no_claims [OF all ne(1)]
    by (simp add: res r Build_def Let_def tally_Passed)
  show "Warnings (Summary report) =
      countStatus CheckStatusWarn (filter (\<lambda>r. CheckType r \<noteq> CheckTypeClaim) (Results report))"
    using countStatus_no_claims [OF all ne(2)]
    by (simp add: res r Build_def Let_def tally_Warnings)
qed


section \<open>Runs on the example inputs\<close>

text \<open>The model on the inputs of the repository's tests and on the example files.\<close>

lemma ExtractCodeLinks_test_links:
  "ExtractCodeLinks linksFile = [rangeLink]"
  "ExtractCodeLinks ''See https://github.com/owner/repo/blob/abc123def456/path/to/file.c#L42'' =
     [singleLink]"
  by code_simp+


lemma VerifyFile_links:
  "VerifyFile onlineEnv ''links.md'' DefaultOptions = Panic (SliceBoundsOutOfRange 8 6)"
  by code_simp

theorem VerifyCodeLink_short_sha_panics_witness:
  "ExtractCodeLinks linksFile = [rangeLink]
   \<and> VerifyCodeLink onlineEnv rangeLink ''links.md'' 1
       ''See https://github.com/owner/repo/blob/abc123/file.go#L10-L20'' =
       Inl (SliceBoundsOutOfRange 8 6)
   \<and> VerifyCodeLinkStrict onlineEnv rangeLink ''links.md'' 1
       ''See https://github.com/owner/repo/blob/abc123/file.go#L10-L20'' =
       Inl (SliceBoundsOutOfRange 8 6)
   \<and> VerifyFile onlineEnv ''links.md'' DefaultOptions = Panic (SliceBoundsOutOfRange 8 6)"
proof -
  have g: "lookPath onlineEnv ''gh'' = None"
    by (simp add: onlineEnv_def offlineEnv_def)
  have a: "ghApi onlineEnv (apiPath (Owner rangeLink) (Repo rangeLink) (CommitSHA rangeLink)
      (FilePath rangeLink)) = GhFailed ''gh: Not Found (HTTP 404)''"
    by (simp add: onlineEnv_def offlineEnv_def apiPath_def rangeLink_def)
  have c: "Contains ''gh: Not Found (HTTP 404)'' ''404'' \<or>
      Contains ''gh: Not Found (HTTP 404)'' ''Not Found''"
    by code_simp
  have l: "length (CommitSHA rangeLink) < 8" "length (CommitSHA rangeLink) = 6"
    by (simp_all add: rangeLink_def)
  show ?thesis
    using VerifyCodeLink_short_sha_panics [OF g a c l(1), of "''links.md''" 1
        "''See https://github.com/owner/repo/blob/abc123/file.go#L10-L20''"]
    by (simp add: l(2) ExtractCodeLinks_test_links VerifyFile_links)
qed



lemma VerifyFile_notes:
  "VerifyFile offlineEnv ''notes.md'' DefaultOptions =
     Ok [mkResult CheckTypeCitation ''notes.md'' 1 ''Benchmarks are reported in [@paper:smith2020].''
           CheckStatusFail
           (''Failed to verify paper ID '' @ Quote ''smith2020'' @ '': bip CLI not found: '' @
            notFoundError ''bip'')
           (noDetails\<lparr>Citation := Some \<lparr>PaperID = ''smith2020'', Resolved = False\<rparr>\<rparr>),
         mkResult CheckTypeClaim ''notes.md'' 2 ''Method A is 40% faster than method B.''
           CheckStatusFail ''Uncited factual claim detected''
           (claimDetails ''Method A is 40% faster than method B.'' ''high'' ''add citation'')]"
  by code_simp





theorem VerifyFile_claim_results_fail_witness:
  "VerifyFile offlineEnv ''notes.md'' DefaultOptions =
     Ok [mkResult CheckTypeCitation ''notes.md'' 1
           ''Benchmarks are reported in [@paper:smith2020].'' CheckStatusFail
           (''Failed to verify paper ID '' @ Quote ''smith2020'' @ '': bip CLI not found: '' @
            notFoundError ''bip'')
           (noDetails\<lparr>Citation := Some \<lparr>PaperID = ''smith2020'', Resolved = False\<rparr>\<rparr>),
         mkResult CheckTypeClaim ''notes.md'' 2 ''Method A is 40% faster than method B.''
           CheckStatusFail ''Uncited factual claim detected''
           (claimDetails ''Method A is 40% faster than method B.'' ''high'' ''add citation'')]
   \<and> Status (VerifyClaim offlineEnv ''Benchmarks are reported in [@paper:smith2020].''
        ''notes.md'' 1 True True) = CheckStatusPass
   \<and> (\<exists>report. VerifyFiles offlineEnv [''notes.md''] DefaultOptions = Ok report
         \<and> length (Results report) = 2
         \<and> Passed (Summary report) = 0 \<and> Warnings (Summary report) = 0)"
proof -
  let ?rs = "[mkResult CheckTypeCitation ''notes.md'' 1
           ''Benchmarks are reported in [@paper:smith2020].'' CheckStatusFail
           (''Failed to verify paper ID '' @ Quote ''smith2020'' @ '': bip CLI not found: '' @
            notFoundError ''bip'')
           (noDetails\<lparr>Citation := Some \<lparr>PaperID = ''smith2020'', Resolved = False\<rparr>\<rparr>),
         mkResult CheckTypeClaim ''notes.md'' 2 ''Method A is 40% faster than method B.''
           CheckStatusFail ''Uncited factual claim detected''
           (claimDetails ''Method A is 40% faster than method B.'' ''high'' ''add citation'')]"
  let ?report = "Build (foldl AddResult (AddFile NewReportBuilder ''notes.md'') ?rs)"
  have fs: "VerifyFiles offlineEnv [''notes.md''] DefaultOptions = Ok ?report"
    by (simp add: VerifyFiles_def VerifyFile_notes)
  have res: "Results ?report = ?rs"
    by (simp add: Build_def Let_def AddResult_def AddFile_def NewReportBuilder_def)
  have cnt: "countStatus CheckStatusPass (filter (\<lambda>r. CheckType r \<noteq> CheckTypeClaim) ?rs) = 0"
    "countStatus CheckStatusWarn (filter (\<lambda>r. CheckType r \<noteq> CheckTypeClaim) ?rs) = 0"
    by (simp_all add: countStatus_def mkResult_def CheckStatus_defs CheckType_defs)
  have p: "Status (VerifyClaim offlineEnv ''Benchmarks are reported in [@paper:smith2020].''
        ''notes.md'' 1 True True) = CheckStatusPass"
    by (simp add: VerifyClaim_def VerifyClaimCalls_def mkResult_def)
  note th = VerifyFile_claim_results_fail [of offlineEnv "''notes.md''" DefaultOptions ?rs
      "[''notes.md'']" ?report]
  have "Passed (Summary ?report) = 0" "Warnings (Summary ?report) = 0"
    using th fs by (simp_all only: res cnt)
  then show ?thesis
    using fs p res by (simp add: VerifyFile_notes)
qed

end
